theory Spec2Isabelle
  imports Main
begin

section \<open>Go values: errors and panics\<close>

text \<open>
  A Go \<^verbatim>\<open>error\<close> value is modelled by the text its \<^verbatim>\<open>Error()\<close> method returns;
  \<^verbatim>\<open>nil\<close> is \<open>None\<close> of \<open>error option\<close>. A run of Go code either comes back with a
  value or panics (index out of range, nil dereference, failed type assertion, write to
  a nil map).
\<close>

datatype error = Error string

fun error_text :: "error \<Rightarrow> string" where
  "error_text (Error s) = s"

datatype 'a go = Done 'a | Panic

section \<open>Cluster objects\<close>

type_synonym EnvVar = "string \<times> string"

record VolumeMount =
  vm_Name :: string
  vm_MountPath :: string

text \<open>
  \<^verbatim>\<open>corev1.VolumeSource\<close>: a struct of optional pointers, of which the executors use
  four. A source is named by the object it refers to; \<^verbatim>\<open>EmptyDirVolumeSource{}\<close>
  carries nothing.
\<close>

record VolumeSource =
  vs_PersistentVolumeClaim :: "string option"
  vs_Secret :: "string option"
  vs_ConfigMap :: "string option"
  vs_EmptyDir :: "unit option"

definition noVolumeSource :: VolumeSource where
  "noVolumeSource = \<lparr>vs_PersistentVolumeClaim = None, vs_Secret = None,
     vs_ConfigMap = None, vs_EmptyDir = None\<rparr>"

record Volume =
  vol_Name :: string
  vol_VolumeSource :: VolumeSource

record PersistentVolumeClaim =
  pvc_Name :: string
  pvc_Annotations :: "string \<rightharpoonup> string"
  pvc_AccessModes :: "string list"

record Container =
  ct_Env :: "EnvVar list"
  ct_EnvFrom :: "string list"
  ct_VolumeMounts :: "VolumeMount list"
  ct_Args :: "string list"

text \<open>
  \<^verbatim>\<open>batchv1.Job\<close>, flattened to the fields the executors touch. \<open>job_Labels\<close> is a Go
  map: \<open>None\<close> is the nil map, which cannot be written to.
\<close>

record Job =
  job_Name :: string
  job_Namespace :: string
  job_Labels :: "(string \<rightharpoonup> string) option"
  job_Containers :: "Container list"
  job_Volumes :: "Volume list"
  job_ServiceAccountName :: string

definition emptyJob :: Job where
  "emptyJob = \<lparr>job_Name = [], job_Namespace = [], job_Labels = None,
     job_Containers = [], job_Volumes = [], job_ServiceAccountName = []\<rparr>"

section \<open>Operations\<close>

record BackendOpts =
  opt_CACert :: string
  opt_ClientCert :: string
  opt_ClientKey :: string

record Backend =
  be_Options :: "BackendOpts option"
  be_VolumeMounts :: "VolumeMount list option"

record RunnableVolumeSpec =
  rv_Name :: string
  rv_PersistentVolumeClaim :: "string option"
  rv_Secret :: "string option"
  rv_ConfigMap :: "string option"

record Check =
  chk_Name :: string
  chk_Namespace :: string
  chk_Backend :: "Backend option"
  chk_Volumes :: "RunnableVolumeSpec list option"

text \<open>
  Modelled from the spec: the \<^verbatim>\<open>Status\<close> type of the operations and its methods
  \<^verbatim>\<open>HasFailed\<close>, \<^verbatim>\<open>HasSucceeded\<close>, \<^verbatim>\<open>HasStarted\<close> and \<^verbatim>\<open>IsWaitingForPreBackup\<close> are declared
  in the API package of the repository. The spec's data model gives the
  status as one of NotStarted, Started, Succeeded, Failed, plus the auxiliary
  WaitingForPreBackup flag of a backup.
\<close>

datatype Phase = NotStarted | Started | Succeeded | Failed

record Status =
  st_Phase :: Phase
  st_WaitingForPreBackup :: bool

definition HasFailed :: "Status \<Rightarrow> bool" where
  "HasFailed s = (st_Phase s = Failed)"

definition HasSucceeded :: "Status \<Rightarrow> bool" where
  "HasSucceeded s = (st_Phase s = Succeeded)"

definition HasStarted :: "Status \<Rightarrow> bool" where
  "HasStarted s = (st_Phase s = Started)"

definition IsWaitingForPreBackup :: "Status \<Rightarrow> bool" where
  "IsWaitingForPreBackup s = st_WaitingForPreBackup s"

record Backup =
  bk_Name :: string
  bk_Namespace :: string
  bk_Tags :: "string list"
  bk_Status :: Status

text \<open>
  The object a \<^verbatim>\<open>job.Config\<close> carries is an interface value: a backup, a check, an
  operation of another kind (named by its kind), or the nil interface.
\<close>

datatype JobObject = BackupObj Backup | CheckObj Check | OtherObj string | NilObj

text \<open>The process-wide configuration \<^verbatim>\<open>cfg.Config\<close>, passed explicitly.\<close>

record Configuration =
  PodVarDir :: string
  BackupAnnotation :: string
  ServiceAccount :: string
  GlobalConcurrentBackupJobsLimit :: int
  GlobalConcurrentCheckJobsLimit :: int

section \<open>Effects on the collaborators\<close>

datatype ConditionType = ConditionReady

datatype ConditionReason = ReasonCreationFailed | ReasonRetrievalFailed

text \<open>
  Every call that reaches a collaborator (the cluster, the hook coordination, the
  retention cleaner, the condition reporting, the logger) is recorded as an event, in
  the order the calls are made.
\<close>

datatype event =
    LogInfo string "(string \<times> string) list"
  | StopPreBackupDeployments
  | CleanupOldResources string "string \<times> string" "Backup option"
  | CreateServiceAccountAndBinding
  | StartPreBackup
  | FetchPVCs
  | SetConditionFalseWithMessage ConditionType ConditionReason string
  | CreateObjectIfNotExisting Job
  | CreateOrUpdate Job
  | SetStarted string

section \<open>The check executor\<close>

definition dataDirName :: string where
  "dataDirName = ''k8up-dir''"

record CheckExecutor =
  cx_Obj :: JobObject
  cx_check :: Check

text \<open>
  \<^verbatim>\<open>NewCheckExecutor\<close>: the type assertion \<^verbatim>\<open>config.Obj.(*k8upv1.Check)\<close> has no
  \<^verbatim>\<open>ok\<close> result, so it panics on every object that is not a check.
\<close>

definition NewCheckExecutor :: "JobObject \<Rightarrow> CheckExecutor go" where
  "NewCheckExecutor obj =
     (case obj of
        CheckObj c \<Rightarrow> Done \<lparr>cx_Obj = obj, cx_check = c\<rparr>
      | _ \<Rightarrow> Panic)"

definition CheckExecutor_GetConcurrencyLimit :: "Configuration \<Rightarrow> int" where
  "CheckExecutor_GetConcurrencyLimit cfg = GlobalConcurrentCheckJobsLimit cfg"

definition Exclusive :: bool where
  "Exclusive = True"

text \<open>
  Modelled from the spec: \<^verbatim>\<open>k8upv1.CheckType.String()\<close> is a constant of the API
  package; the spec gives the workload name as \<^verbatim>\<open>check-<resource-name>\<close>.
\<close>

definition CheckType_String :: string where
  "CheckType_String = ''check''"

definition jobName :: "CheckExecutor \<Rightarrow> string" where
  "jobName c = CheckType_String @ ''-'' @ chk_Name (cx_check c)"

definition appendOptionsArgs :: "CheckExecutor \<Rightarrow> string list" where
  "appendOptionsArgs c =
     (case chk_Backend (cx_check c) of
        None \<Rightarrow> []
      | Some be \<Rightarrow>
         (case be_Options be of
            None \<Rightarrow> []
          | Some opts \<Rightarrow>
             (let args = [];
                  args = (if opt_CACert opts \<noteq> []
                          then args @ [''-caCert'', opt_CACert opts] else args);
                  args = (if opt_ClientCert opts \<noteq> [] \<and> opt_ClientKey opts \<noteq> []
                          then args @ [''-clientCert'', opt_ClientCert opts,
                                       ''-clientKey'', opt_ClientKey opts]
                          else args)
              in args)))"

definition setupArgs :: "Configuration \<Rightarrow> CheckExecutor \<Rightarrow> string list \<times> error option" where
  "setupArgs cfg c =
     (let args = [''-varDir'', PodVarDir cfg, ''-check''];
          args = args @ appendOptionsArgs c
      in (args, None))"

text \<open>
  Modelled from the spec: \<^verbatim>\<open>utils.ZeroLen\<close> is a helper from the repository's utility
  package; it holds of a nil pointer and of an empty list ("declared extra
  volumes = empty").
\<close>

definition ZeroLen :: "'a list option \<Rightarrow> bool" where
  "ZeroLen v = (case v of None \<Rightarrow> True | Some xs \<Rightarrow> xs = [])"

definition ku8pVolume :: Volume where
  "ku8pVolume = \<lparr>vol_Name = dataDirName,
     vol_VolumeSource = noVolumeSource\<lparr>vs_EmptyDir := Some ()\<rparr>\<rparr>"

text \<open>The loop of \<^verbatim>\<open>attachMoreVolumes\<close>, appending to \<open>moreVolumes\<close>.\<close>

fun attachMoreVolumes_loop :: "RunnableVolumeSpec list \<Rightarrow> Volume list \<Rightarrow> Volume list" where
  "attachMoreVolumes_loop [] moreVolumes = moreVolumes"
| "attachMoreVolumes_loop (vol # vs) moreVolumes =
     (if rv_PersistentVolumeClaim vol \<noteq> None then
        attachMoreVolumes_loop vs (moreVolumes @
          [\<lparr>vol_Name = rv_Name vol, vol_VolumeSource =
              noVolumeSource\<lparr>vs_PersistentVolumeClaim := rv_PersistentVolumeClaim vol\<rparr>\<rparr>])
      else if rv_Secret vol \<noteq> None then
        attachMoreVolumes_loop vs (moreVolumes @
          [\<lparr>vol_Name = rv_Name vol, vol_VolumeSource =
              noVolumeSource\<lparr>vs_Secret := rv_Secret vol\<rparr>\<rparr>])
      else if rv_ConfigMap vol \<noteq> None then
        attachMoreVolumes_loop vs (moreVolumes @
          [\<lparr>vol_Name = rv_Name vol, vol_VolumeSource =
              noVolumeSource\<lparr>vs_ConfigMap := rv_ConfigMap vol\<rparr>\<rparr>])
      else attachMoreVolumes_loop vs moreVolumes)"

definition attachMoreVolumes :: "CheckExecutor \<Rightarrow> Volume list" where
  "attachMoreVolumes c =
     (if ZeroLen (chk_Volumes (cx_check c)) then [ku8pVolume]
      else (case chk_Volumes (cx_check c) of
              None \<Rightarrow> [ku8pVolume]
            | Some vs \<Rightarrow> attachMoreVolumes_loop vs ([] @ [ku8pVolume])))"

definition attachMoreVolumeMounts :: "Configuration \<Rightarrow> CheckExecutor \<Rightarrow> VolumeMount list" where
  "attachMoreVolumeMounts cfg c =
     (let volumeMount =
            (case chk_Backend (cx_check c) of
               None \<Rightarrow> []
             | Some be \<Rightarrow>
                (if \<not> ZeroLen (be_VolumeMounts be)
                 then (case be_VolumeMounts be of None \<Rightarrow> [] | Some ms \<Rightarrow> ms)
                 else []));
          ku8pVolumeMount = \<lparr>vm_Name = dataDirName, vm_MountPath = PodVarDir cfg\<rparr>
      in volumeMount @ [ku8pVolumeMount])"

text \<open>
  What the check executor takes from its collaborators: the template
  generator \<^verbatim>\<open>job.MutateBatchJob\<close> (the job it leaves and its error), the
  environment that \<^verbatim>\<open>setupEnvVars\<close> gets from the environment converter,
  \<^verbatim>\<open>AppendEnvFromToContainer\<close> of the check's spec, the label key
  \<^verbatim>\<open>job.K8upExclusive\<close>, and the platform's upsert primitive
  \<^verbatim>\<open>controllerruntime.CreateOrUpdate\<close>, which is handed the job and the mutate
  function and leaves the job as written together with its error, or panics when the
  mutate function does.
\<close>

record CheckWorld =
  MutateBatchJob :: "Job \<Rightarrow> Check \<Rightarrow> Job \<times> error option"
  cw_setupEnvVars :: "EnvVar list"
  cw_AppendEnvFromToContainer :: "Container \<Rightarrow> Container"
  K8upExclusive :: string
  controllerruntime_CreateOrUpdate ::
    "Job \<Rightarrow> (Job \<Rightarrow> (Job \<times> error option) go) \<Rightarrow> (Job \<times> error option) go"

text \<open>
  The mutate function that \<^verbatim>\<open>Execute\<close> hands to the upsert. \<^verbatim>\<open>Containers[0]\<close> panics
  on a template without containers, and the label assignment on a nil label map.
\<close>

definition Execute_mutate ::
  "CheckWorld \<Rightarrow> Configuration \<Rightarrow> CheckExecutor \<Rightarrow> Job \<Rightarrow> (Job \<times> error option) go" where
  "Execute_mutate w cfg c batchJob =
     (case MutateBatchJob w batchJob (cx_check c) of
        (batchJob, Some mutateErr) \<Rightarrow> Done (batchJob, Some mutateErr)
      | (batchJob, None) \<Rightarrow>
         (case job_Containers batchJob of
            [] \<Rightarrow> Panic
          | c0 # cs \<Rightarrow>
             (let c0 = c0\<lparr>ct_Env := cw_setupEnvVars w\<rparr>;
                  c0 = cw_AppendEnvFromToContainer w c0;
                  c0 = c0\<lparr>ct_VolumeMounts := attachMoreVolumeMounts cfg c\<rparr>;
                  batchJob = batchJob\<lparr>job_Containers := c0 # cs,
                                       job_Volumes := attachMoreVolumes c\<rparr>
              in (case job_Labels batchJob of
                    None \<Rightarrow> Panic
                  | Some labels \<Rightarrow>
                     (let batchJob = batchJob\<lparr>job_Labels :=
                                        Some (labels(K8upExclusive w \<mapsto> ''true''))\<rparr>;
                          (args, argsErr) = setupArgs cfg c;
                          batchJob = batchJob\<lparr>job_Containers :=
                                        c0\<lparr>ct_Args := args\<rparr> # cs\<rparr>
                      in Done (batchJob, argsErr))))))"

definition CheckExecutor_Execute ::
  "CheckWorld \<Rightarrow> Configuration \<Rightarrow> CheckExecutor \<Rightarrow> event list \<times> error option go" where
  "CheckExecutor_Execute w cfg c =
     (let batchJob = emptyJob\<lparr>job_Name := jobName c,
                              job_Namespace := chk_Namespace (cx_check c)\<rparr>
      in (case controllerruntime_CreateOrUpdate w batchJob (Execute_mutate w cfg c) of
            Panic \<Rightarrow> ([CreateOrUpdate batchJob], Panic)
          | Done (batchJob', Some err) \<Rightarrow>
              ([CreateOrUpdate batchJob,
                SetConditionFalseWithMessage ConditionReady ReasonCreationFailed
                  (''could not create job: '' @ error_text err)],
               Done (Some err))
          | Done (batchJob', None) \<Rightarrow>
              ([CreateOrUpdate batchJob,
                SetStarted (''the job '' @ [CHR 0x27] @ job_Namespace batchJob' @ ''/''
                            @ job_Name batchJob' @ [CHR 0x27] @ '' was created'')],
               Done None)))"

section \<open>The backup executor\<close>

text \<open>
  \<^verbatim>\<open>strconv.ParseBool\<close> of the Go standard library: six spellings of true, six of
  false, and for every other string the value false together with a syntax error.
\<close>

definition ParseBool :: "string \<Rightarrow> bool \<times> error option" where
  "ParseBool str =
     (if str \<in> set [''1'', ''t'', ''T'', ''TRUE'', ''true'', ''True'']
        then (True, None)
      else if str \<in> set [''0'', ''f'', ''F'', ''FALSE'', ''false'', ''False'']
        then (False, None)
      else (False, Some (Error (''strconv.ParseBool: parsing '' @ str @ '': invalid syntax''))))"

text \<open>
  Modelled from the spec: \<^verbatim>\<open>containsAccessMode\<close> is a helper defined in another file of
  the backup controller; the spec's \<^verbatim>\<open>hasAccessMode(RWX)\<close> asks whether the
  claim's access modes hold the given one.
\<close>

definition containsAccessMode :: "string list \<Rightarrow> string \<Rightarrow> bool" where
  "containsAccessMode s e = (e \<in> set s)"

record BackupExecutor =
  bx_Obj :: JobObject
  bx_backup :: "Backup option"

definition NewBackupExecutor :: "JobObject \<Rightarrow> BackupExecutor" where
  "NewBackupExecutor obj = \<lparr>bx_Obj = obj, bx_backup = None\<rparr>"

definition BackupExecutor_GetConcurrencyLimit :: "Configuration \<Rightarrow> int" where
  "BackupExecutor_GetConcurrencyLimit cfg = GlobalConcurrentBackupJobsLimit cfg"

text \<open>
  What the backup executor takes from its collaborators, each as the answer
  the collaborator gives: the rendering of an object by \<^verbatim>\<open>fmt\<close>'s \<^verbatim>\<open>%v\<close>, the
  namespaced name of the job, the service-account ensure, the template generator, the
  hook coordination, the listing of the claims of the namespace, the environment, the
  volume mounts, the tag arguments, and the idempotent create. The hook coordination
  works on the operation itself: besides its answer it has \<open>StartPreBackup_update\<close>, what
  the call does to the backup it is given (it reports the state of the hooks in the
  backup's status).
\<close>

record BackupWorld =
  fmt_v :: "JobObject \<Rightarrow> string"
  GetJobNamespacedName :: "string \<times> string"
  createServiceAccountAndBinding :: "error option"
  GenerateGenericJob :: "error + Job"
  StartPreBackup_result :: "bool \<times> error option"
  StartPreBackup_update :: "Backup \<Rightarrow> Backup"
  fetchPVCs :: "error + PersistentVolumeClaim list"
  bw_setupEnvVars :: "EnvVar list"
  bw_AppendEnvFromToContainer :: "Container \<Rightarrow> Container"
  newVolumeMounts :: "Volume list \<Rightarrow> VolumeMount list"
  BuildTagArgs :: "string list \<Rightarrow> string list"
  CreateObjectIfNotExisting_result :: "Job \<Rightarrow> error option"

definition pvcVolume :: "PersistentVolumeClaim \<Rightarrow> Volume" where
  "pvcVolume item = \<lparr>vol_Name = pvc_Name item,
     vol_VolumeSource = noVolumeSource\<lparr>vs_PersistentVolumeClaim := Some (pvc_Name item)\<rparr>\<rparr>"

text \<open>
  The loop of \<^verbatim>\<open>listAndFilterPVCs\<close> over the listed claims, with the log lines and
  the volumes gathered so far. A \<^verbatim>\<open>continue\<close> goes on with the volumes unchanged.
\<close>

fun listAndFilterPVCs_loop ::
  "string \<Rightarrow> PersistentVolumeClaim list \<Rightarrow> event list \<times> Volume list
     \<Rightarrow> event list \<times> Volume list" where
  "listAndFilterPVCs_loop annotation [] (log, volumes) = (log, volumes)"
| "listAndFilterPVCs_loop annotation (item # items) (log, volumes) =
     (let annotations = pvc_Annotations item;
          (tmpAnnotation, ok) =
             (case annotations annotation of None \<Rightarrow> ([], False) | Some v \<Rightarrow> (v, True))
      in if \<not> containsAccessMode (pvc_AccessModes item) ''ReadWriteMany'' \<and> \<not> ok then
           listAndFilterPVCs_loop annotation items
             (log @ [LogInfo ''PVC isn't RWX'' [(''pvc'', pvc_Name item)]], volumes)
         else if \<not> ok then
           listAndFilterPVCs_loop annotation items
             (log @ [LogInfo ''PVC doesn't have annotation, adding to list''
                       [(''pvc'', pvc_Name item)]],
              volumes @ [pvcVolume item])
         else if \<not> fst (ParseBool tmpAnnotation) then
           listAndFilterPVCs_loop annotation items
             (log @ [LogInfo ''PVC skipped due to annotation''
                       [(''pvc'', pvc_Name item), (''annotation'', tmpAnnotation)]],
              volumes)
         else
           listAndFilterPVCs_loop annotation items
             (log @ [LogInfo ''Adding to list'' [(''pvc'', pvc_Name item)]],
              volumes @ [pvcVolume item]))"

definition listAndFilterPVCs ::
  "BackupWorld \<Rightarrow> string \<Rightarrow> event list \<times> Volume list \<times> error option" where
  "listAndFilterPVCs w annotation =
     (let volumes = [];
          log = [LogInfo ''Listing all PVCs'' [(''annotation'', annotation)], FetchPVCs]
      in (case fetchPVCs w of
            Inl err \<Rightarrow> (log, volumes, Some err)
          | Inr claimlist \<Rightarrow>
              (case listAndFilterPVCs_loop annotation claimlist (log, volumes) of
                 (log, volumes) \<Rightarrow> (log, volumes, None))))"

text \<open>
  \<^verbatim>\<open>startBackup\<close>. The hook coordination runs first and may write to the operation;
  \<^verbatim>\<open>b.backup\<close> is assigned from \<^verbatim>\<open>b.Obj\<close> only, so both refer to the operation
  as the call left it. The waiting flag is read through \<^verbatim>\<open>b.backup\<close> after the call,
  and only when the hooks are ready (the disjunction short-circuits);
  \<^verbatim>\<open>Containers[0]\<close> panics on a template without containers. The result holds the
  events, the executor as the call leaves it, and the error returned.
\<close>

definition startBackup ::
  "BackupWorld \<Rightarrow> Configuration \<Rightarrow> BackupExecutor \<Rightarrow> Job
     \<Rightarrow> event list \<times> BackupExecutor \<times> error option go" where
  "startBackup w cfg b backupJob =
     (let b = b\<lparr>bx_Obj := (case bx_Obj b of
                              BackupObj obj \<Rightarrow> BackupObj (StartPreBackup_update w obj)
                            | obj \<Rightarrow> obj),
                 bx_backup := map_option (StartPreBackup_update w) (bx_backup b)\<rparr>
      in (case StartPreBackup_result w of
        (ready, Some err) \<Rightarrow> ([StartPreBackup], b, Done (Some err))
      | (ready, None) \<Rightarrow>
         (if \<not> ready then ([StartPreBackup], b, Done None)
          else (case bx_backup b of
            None \<Rightarrow> ([StartPreBackup], b, Panic)
          | Some backup \<Rightarrow>
             (if IsWaitingForPreBackup (bk_Status backup) then ([StartPreBackup], b, Done None)
              else (case listAndFilterPVCs w (BackupAnnotation cfg) of
                 (log, volumes, Some err) \<Rightarrow>
                   ([StartPreBackup] @ log @
                      [SetConditionFalseWithMessage ConditionReady ReasonRetrievalFailed
                         (error_text err)],
                    b, Done (Some err))
               | (log, volumes, None) \<Rightarrow>
                   (case job_Containers backupJob of
                      [] \<Rightarrow> ([StartPreBackup] @ log, b, Panic)
                    | c0 # cs \<Rightarrow>
                       (let c0 = c0\<lparr>ct_Env := bw_setupEnvVars w\<rparr>;
                            c0 = bw_AppendEnvFromToContainer w c0;
                            backupJob = backupJob\<lparr>job_Volumes := volumes,
                                          job_ServiceAccountName := ServiceAccount cfg\<rparr>;
                            c0 = c0\<lparr>ct_VolumeMounts := newVolumeMounts w volumes\<rparr>;
                            c0 = c0\<lparr>ct_Args := BuildTagArgs w (bk_Tags backup)\<rparr>;
                            backupJob = backupJob\<lparr>job_Containers := c0 # cs\<rparr>
                        in ([StartPreBackup] @ log @ [CreateObjectIfNotExisting backupJob],
                            b, Done (CreateObjectIfNotExisting_result w backupJob))))))))))"

definition cleanupOldBackups :: "BackupExecutor \<Rightarrow> string \<times> string \<Rightarrow> event list" where
  "cleanupOldBackups b name = [CleanupOldResources ''BackupList'' name (bx_backup b)]"

text \<open>
  \<^verbatim>\<open>Execute\<close> of the backup executor: the events, the executor as the call leaves it
  (\<^verbatim>\<open>b.backup\<close> is assigned), and the error returned. The status is copied at entry,
  before any collaborator is called.
\<close>

definition BackupExecutor_Execute ::
  "BackupWorld \<Rightarrow> Configuration \<Rightarrow> BackupExecutor
     \<Rightarrow> event list \<times> BackupExecutor \<times> error option go" where
  "BackupExecutor_Execute w cfg b =
     (case bx_Obj b of
        BackupObj backupObject \<Rightarrow>
          (let b = b\<lparr>bx_backup := Some backupObject\<rparr>;
               status = bk_Status backupObject
           in if HasFailed status \<or> HasSucceeded status then
                (let name = GetJobNamespacedName w
                 in ([StopPreBackupDeployments] @ cleanupOldBackups b name, b, Done None))
              else if HasStarted status then ([], b, Done None)
              else (case createServiceAccountAndBinding w of
                      Some err \<Rightarrow> ([CreateServiceAccountAndBinding], b, Done (Some err))
                    | None \<Rightarrow>
                       (case GenerateGenericJob w of
                          Inl err \<Rightarrow> ([CreateServiceAccountAndBinding], b, Done (Some err))
                        | Inr genericJob \<Rightarrow>
                           (case startBackup w cfg b genericJob of
                              (evs, b, r) \<Rightarrow>
                                ([CreateServiceAccountAndBinding] @ evs, b, r)))))
      | _ \<Rightarrow> ([], b, Done (Some (Error (''object is not a backup: '' @ fmt_v w (bx_Obj b))))))"

section \<open>What the loop does with one claim\<close>

text \<open>
  A claim is included when the loop of \<^verbatim>\<open>listAndFilterPVCs\<close>, run on that claim alone,
  yields a volume; \<open>pvcLog\<close> is what the loop logs for it.
\<close>

definition pvcIncluded :: "string \<Rightarrow> PersistentVolumeClaim \<Rightarrow> bool" where
  "pvcIncluded annotation item =
     (snd (listAndFilterPVCs_loop annotation [item] ([], [])) \<noteq> [])"

definition pvcLog :: "string \<Rightarrow> PersistentVolumeClaim \<Rightarrow> event list" where
  "pvcLog annotation item = fst (listAndFilterPVCs_loop annotation [item] ([], []))"

section \<open>Sample inputs\<close>

definition sampleConfiguration :: Configuration where
  "sampleConfiguration = \<lparr>PodVarDir = ''/k8up'', BackupAnnotation = ''k8up.io/backup'',
     ServiceAccount = ''pod-executor'', GlobalConcurrentBackupJobsLimit = 1,
     GlobalConcurrentCheckJobsLimit = 1\<rparr>"

definition sampleContainer :: Container where
  "sampleContainer = \<lparr>ct_Env = [], ct_EnvFrom = [], ct_VolumeMounts = [], ct_Args = []\<rparr>"

definition sampleTemplate :: Job where
  "sampleTemplate = \<lparr>job_Name = ''backup-nightly'', job_Namespace = ''prod'',
     job_Labels = Some Map.empty, job_Containers = [sampleContainer], job_Volumes = [],
     job_ServiceAccountName = []\<rparr>"

text \<open>One claim for each row of the eligibility table, in the table's order.\<close>

definition sampleClaims :: "PersistentVolumeClaim list" where
  "sampleClaims =
     [\<lparr>pvc_Name = ''shared'', pvc_Annotations = Map.empty,
        pvc_AccessModes = [''ReadWriteMany'']\<rparr>,
      \<lparr>pvc_Name = ''local'', pvc_Annotations = Map.empty,
        pvc_AccessModes = [''ReadWriteOnce'']\<rparr>,
      \<lparr>pvc_Name = ''database'', pvc_Annotations = [''k8up.io/backup'' \<mapsto> ''true''],
        pvc_AccessModes = [''ReadWriteOnce'']\<rparr>,
      \<lparr>pvc_Name = ''cache'', pvc_Annotations = [''k8up.io/backup'' \<mapsto> ''false''],
        pvc_AccessModes = [''ReadWriteMany'']\<rparr>,
      \<lparr>pvc_Name = ''spool'', pvc_Annotations = [''k8up.io/backup'' \<mapsto> ''false''],
        pvc_AccessModes = [''ReadWriteOnce'']\<rparr>]"

definition sampleUnparsableClaim :: PersistentVolumeClaim where
  "sampleUnparsableClaim = \<lparr>pvc_Name = ''media'',
     pvc_Annotations = [''k8up.io/backup'' \<mapsto> ''maybe''],
     pvc_AccessModes = [''ReadWriteMany'']\<rparr>"

definition sampleBackup :: Backup where
  "sampleBackup = \<lparr>bk_Name = ''nightly'', bk_Namespace = ''prod'', bk_Tags = [],
     bk_Status = \<lparr>st_Phase = NotStarted, st_WaitingForPreBackup = False\<rparr>\<rparr>"

definition sampleBackupWorld :: BackupWorld where
  "sampleBackupWorld = \<lparr>fmt_v = (\<lambda>obj. ''&{...}''),
     GetJobNamespacedName = (''prod'', ''backup-nightly''),
     createServiceAccountAndBinding = None,
     GenerateGenericJob = Inr sampleTemplate,
     StartPreBackup_result = (True, None),
     StartPreBackup_update = (\<lambda>backup. backup),
     fetchPVCs = Inr sampleClaims,
     bw_setupEnvVars = [],
     bw_AppendEnvFromToContainer = (\<lambda>c. c),
     newVolumeMounts = map (\<lambda>v. \<lparr>vm_Name = vol_Name v, vm_MountPath = ''/data/'' @ vol_Name v\<rparr>),
     BuildTagArgs = concat \<circ> map (\<lambda>t. [''--tag'', t]),
     CreateObjectIfNotExisting_result = (\<lambda>job. None)\<rparr>"

text \<open>The job that the backup executor hands to the create call for the sample claims.\<close>

definition sampleBackupJob :: Job where
  "sampleBackupJob = sampleTemplate\<lparr>
     job_Volumes := [pvcVolume (sampleClaims ! 0), pvcVolume (sampleClaims ! 2)],
     job_ServiceAccountName := ''pod-executor'',
     job_Containers := [sampleContainer\<lparr>ct_VolumeMounts :=
        [\<lparr>vm_Name = ''shared'', vm_MountPath = ''/data/shared''\<rparr>,
         \<lparr>vm_Name = ''database'', vm_MountPath = ''/data/database''\<rparr>]\<rparr>]\<rparr>"

definition sampleCheck :: Check where
  "sampleCheck = \<lparr>chk_Name = ''weekly'', chk_Namespace = ''prod'',
     chk_Backend = Some \<lparr>be_Options = Some \<lparr>opt_CACert = ''/mnt/ca/ca.crt'',
                                              opt_ClientCert = ''/mnt/tls/tls.crt'',
                                              opt_ClientKey = []\<rparr>,
                         be_VolumeMounts = None\<rparr>,
     chk_Volumes = Some [\<lparr>rv_Name = ''ca'', rv_PersistentVolumeClaim = None,
                          rv_Secret = Some ''ca-secret'', rv_ConfigMap = None\<rparr>,
                         \<lparr>rv_Name = ''k8up-dir'', rv_PersistentVolumeClaim = None,
                          rv_Secret = None, rv_ConfigMap = None\<rparr>]\<rparr>"

definition sampleCheckExecutor :: CheckExecutor where
  "sampleCheckExecutor = \<lparr>cx_Obj = CheckObj sampleCheck, cx_check = sampleCheck\<rparr>"

text \<open>
  A platform whose template generator fills in one container and whose upsert runs the
  mutate function and writes what it leaves, unless the mutate function fails.
\<close>

definition sampleCheckWorld :: CheckWorld where
  "sampleCheckWorld = \<lparr>
     MutateBatchJob = (\<lambda>job check.
        (job\<lparr>job_Labels := Some Map.empty, job_Containers := [sampleContainer]\<rparr>, None)),
     cw_setupEnvVars = [],
     cw_AppendEnvFromToContainer = (\<lambda>c. c),
     K8upExclusive = ''k8upjob/exclusive'',
     controllerruntime_CreateOrUpdate = (\<lambda>job mutate. mutate job)\<rparr>"

section \<open>The loop over the listed claims\<close>

lemma pvcIncluded_code:
  "pvcIncluded annotation item =
     (case pvc_Annotations item annotation of
        None \<Rightarrow> containsAccessMode (pvc_AccessModes item) ''ReadWriteMany''
      | Some v \<Rightarrow> fst (ParseBool v))"
  by (simp add: pvcIncluded_def Let_def split: option.splits)

lemma pvcLog_code:
  "pvcLog annotation item =
     (case pvc_Annotations item annotation of
        None \<Rightarrow>
          (if containsAccessMode (pvc_AccessModes item) ''ReadWriteMany''
           then [LogInfo ''PVC doesn't have annotation, adding to list'' [(''pvc'', pvc_Name item)]]
           else [LogInfo ''PVC isn't RWX'' [(''pvc'', pvc_Name item)]])
      | Some v \<Rightarrow>
          (if fst (ParseBool v)
           then [LogInfo ''Adding to list'' [(''pvc'', pvc_Name item)]]
           else [LogInfo ''PVC skipped due to annotation''
                   [(''pvc'', pvc_Name item), (''annotation'', v)]]))"
  by (simp add: pvcLog_def Let_def split: option.splits)

lemma loop_volumes:
  "snd (listAndFilterPVCs_loop annotation items (log, volumes))
     = volumes @ map pvcVolume (filter (pvcIncluded annotation) items)"
  by (induction items arbitrary: log volumes)
     (simp_all add: pvcIncluded_code Let_def split: option.splits)

lemma loop_log:
  "fst (listAndFilterPVCs_loop annotation items (log, volumes))
     = log @ concat (map (pvcLog annotation) items)"
  by (induction items arbitrary: log volumes)
     (simp_all add: pvcLog_code Let_def split: option.splits)

lemma listAndFilterPVCs_ok:
  assumes "fetchPVCs w = Inr items"
  shows "listAndFilterPVCs w annotation =
           ([LogInfo ''Listing all PVCs'' [(''annotation'', annotation)], FetchPVCs]
              @ concat (map (pvcLog annotation) items),
            map pvcVolume (filter (pvcIncluded annotation) items), None)"
proof -
  obtain l v where lv: "listAndFilterPVCs_loop annotation items
      ([LogInfo ''Listing all PVCs'' [(''annotation'', annotation)], FetchPVCs], []) = (l, v)"
    by (cases "listAndFilterPVCs_loop annotation items
      ([LogInfo ''Listing all PVCs'' [(''annotation'', annotation)], FetchPVCs], [])")
  have "l = [LogInfo ''Listing all PVCs'' [(''annotation'', annotation)], FetchPVCs]
              @ concat (map (pvcLog annotation) items)"
    using loop_log [of annotation items _ "[]"] lv by (metis fst_conv)
  moreover have "v = map pvcVolume (filter (pvcIncluded annotation) items)"
    using loop_volumes [of annotation items _ "[]"] lv by (metis snd_conv append_Nil)
  ultimately show ?thesis
    using assms lv by (simp add: listAndFilterPVCs_def)
qed

lemma listAndFilterPVCs_err:
  assumes "fetchPVCs w = Inl err"
  shows "listAndFilterPVCs w annotation =
           ([LogInfo ''Listing all PVCs'' [(''annotation'', annotation)], FetchPVCs], [], Some err)"
  using assms by (simp add: listAndFilterPVCs_def)

lemma ParseBool_true:
  "(ParseBool v = (True, None)) = fst (ParseBool v)"
  by (simp add: ParseBool_def)

lemma pvcLog_no_create: "CreateObjectIfNotExisting job \<notin> set (pvcLog annotation item)"
  by (simp add: pvcLog_code split: option.splits)

lemma listAndFilterPVCs_no_create:
  "CreateObjectIfNotExisting job \<notin> set (fst (listAndFilterPVCs w annotation))"
  by (cases "fetchPVCs w")
     (simp_all add: listAndFilterPVCs_err listAndFilterPVCs_ok pvcLog_no_create)

lemma pvcVolume_no_emptyDir:
  "vs_EmptyDir (vol_VolumeSource (pvcVolume item)) = None"
  by (simp add: pvcVolume_def noVolumeSource_def)

lemma startBackup_created_job:
  assumes "CreateObjectIfNotExisting job \<in> set (fst (startBackup w cfg b backupJob))"
  shows "job_Volumes job = fst (snd (listAndFilterPVCs w (BackupAnnotation cfg)))
         \<and> snd (snd (listAndFilterPVCs w (BackupAnnotation cfg))) = None"
proof -
  obtain log volumes err where l: "listAndFilterPVCs w (BackupAnnotation cfg) = (log, volumes, err)"
    by (cases "listAndFilterPVCs w (BackupAnnotation cfg)") auto
  have nc: "CreateObjectIfNotExisting job \<notin> set log"
    using listAndFilterPVCs_no_create [of job w "BackupAnnotation cfg"] l by simp
  show ?thesis
    using assms l nc
    by (auto simp: startBackup_def Let_def split: prod.splits option.splits if_splits list.splits)
qed

lemma Execute_created_job:
  assumes "CreateObjectIfNotExisting job \<in> set (fst (BackupExecutor_Execute w cfg b))"
  shows "job_Volumes job = fst (snd (listAndFilterPVCs w (BackupAnnotation cfg)))
         \<and> snd (snd (listAndFilterPVCs w (BackupAnnotation cfg))) = None"
proof (cases "bx_Obj b")
  case (BackupObj bk)
  have "\<exists>genericJob. CreateObjectIfNotExisting job
          \<in> set (fst (startBackup w cfg (b\<lparr>bx_backup := Some bk\<rparr>) genericJob))"
    using assms BackupObj
    by (auto simp: BackupExecutor_Execute_def Let_def cleanupOldBackups_def
          split: if_splits option.splits sum.splits prod.splits)
       (metis fst_conv)
  then show ?thesis
    using startBackup_created_job by blast
qed (use assms in \<open>simp_all add: BackupExecutor_Execute_def\<close>)

lemma startBackup_deferred:
  assumes "StartPreBackup_result w = (ready, herr)"
    and "\<not> ready \<or> (\<exists>bk. bx_backup b = Some bk
            \<and> st_WaitingForPreBackup (bk_Status (StartPreBackup_update w bk)))"
  shows "startBackup w cfg b backupJob =
           ([StartPreBackup],
            b\<lparr>bx_Obj := (case bx_Obj b of
                           BackupObj obj \<Rightarrow> BackupObj (StartPreBackup_update w obj)
                         | obj \<Rightarrow> obj),
              bx_backup := map_option (StartPreBackup_update w) (bx_backup b)\<rparr>,
            Done herr)"
  using assms
  by (auto simp: startBackup_def IsWaitingForPreBackup_def Let_def split: option.splits)

lemma filter_same_key:
  "distinct (map f xs) \<Longrightarrow> x \<in> set xs \<Longrightarrow> filter (\<lambda>y. f y = f x) xs = [x]"
proof (induction xs)
  case Nil
  then show ?case by simp
next
  case (Cons a xs)
  show ?case
  proof (cases "a = x")
    case True
    have "f x \<notin> f ` set xs"
      using Cons.prems(1) True by simp
    then have "\<forall>y\<in>set xs. f y \<noteq> f x"
      by (metis imageI)
    then have "filter (\<lambda>y. f y = f x) xs = []"
      by (simp add: filter_empty_conv)
    then show ?thesis using True by simp
  next
    case False
    then have "x \<in> set xs" using Cons.prems(2) by simp
    moreover have "f a \<noteq> f x" using Cons.prems(1) \<open>x \<in> set xs\<close> by auto
    ultimately show ?thesis using Cons by simp
  qed
qed

section \<open>Volumes and arguments of the check, as the mutate function leaves them\<close>

lemma attachMoreVolumes_loop_emptyDir:
  "filter (\<lambda>v. vs_EmptyDir (vol_VolumeSource v) \<noteq> None) (attachMoreVolumes_loop vs acc)
     = filter (\<lambda>v. vs_EmptyDir (vol_VolumeSource v) \<noteq> None) acc"
  by (induction vs arbitrary: acc) (simp_all add: noVolumeSource_def)

lemma attachMoreVolumes_emptyDir:
  "filter (\<lambda>v. vs_EmptyDir (vol_VolumeSource v) \<noteq> None) (attachMoreVolumes c) = [ku8pVolume]"
proof -
  have k: "filter (\<lambda>v. vs_EmptyDir (vol_VolumeSource v) \<noteq> None) [ku8pVolume] = [ku8pVolume]"
    by (simp add: ku8pVolume_def noVolumeSource_def)
  have "attachMoreVolumes c = [ku8pVolume]
        \<or> (\<exists>vs. attachMoreVolumes c = attachMoreVolumes_loop vs [ku8pVolume])"
    by (auto simp: attachMoreVolumes_def split: option.splits)
  then show ?thesis
  proof
    assume "attachMoreVolumes c = [ku8pVolume]"
    then show ?thesis using k by simp
  next
    assume "\<exists>vs. attachMoreVolumes c = attachMoreVolumes_loop vs [ku8pVolume]"
    then obtain vs where "attachMoreVolumes c = attachMoreVolumes_loop vs [ku8pVolume]" ..
    then show ?thesis
      using attachMoreVolumes_loop_emptyDir [of vs "[ku8pVolume]"] k by (simp only:)
  qed
qed

lemma Execute_mutate_result:
  assumes "Execute_mutate w cfg c job = Done (job', None)"
  shows "\<exists>c0 cs. job_Containers job' = c0 # cs \<and> ct_Args c0 = fst (setupArgs cfg c)
           \<and> job_Volumes job' = attachMoreVolumes c"
  using assms
  by (auto simp: Execute_mutate_def Let_def setupArgs_def split: prod.splits option.splits list.splits)

lemma sample_mutate:
  "\<exists>job'. Execute_mutate sampleCheckWorld sampleConfiguration sampleCheckExecutor
       (emptyJob\<lparr>job_Name := jobName sampleCheckExecutor,
                 job_Namespace := chk_Namespace (cx_check sampleCheckExecutor)\<rparr>)
     = Done (job', None) \<and> job_Name job' = ''check-weekly'' \<and> job_Namespace job' = ''prod''"
  by (simp add: Execute_mutate_def sampleCheckWorld_def Let_def setupArgs_def emptyJob_def
        jobName_def CheckType_String_def sampleCheckExecutor_def sampleCheck_def)

lemma sample_run:
  "last (fst (BackupExecutor_Execute sampleBackupWorld sampleConfiguration
       (NewBackupExecutor (BackupObj sampleBackup)))) = CreateObjectIfNotExisting sampleBackupJob"
  by (simp add: BackupExecutor_Execute_def startBackup_def NewBackupExecutor_def
        listAndFilterPVCs_def sampleConfiguration_def sampleTemplate_def sampleContainer_def
        sampleBackupWorld_def sampleBackup_def HasFailed_def HasSucceeded_def HasStarted_def
        IsWaitingForPreBackup_def sampleClaims_def containsAccessMode_def ParseBool_def
        pvcVolume_def sampleBackupJob_def Let_def)

section \<open>Eligibility of the claims\<close>

text \<open>
  C1. When the listing succeeds, the volumes that the backup executor's volume discovery
  returns are those of exactly the listed claims that either have access mode
  ReadWriteMany and no annotation, or carry the annotation with a value that parses to
  true; they come in the order of the listing. The witness runs the five rows of the
  eligibility table: (RWX, absent) and (non-RWX, "true") are included, (non-RWX, absent),
  (RWX, "false") and (non-RWX, "false") are not.
\<close>

theorem pvc_eligibility_table:
  assumes "fetchPVCs w = Inr items"
  shows "fst (snd (listAndFilterPVCs w annotation)) =
           map pvcVolume (filter
             (\<lambda>item. (containsAccessMode (pvc_AccessModes item) ''ReadWriteMany''
                        \<and> pvc_Annotations item annotation = None)
                    \<or> (\<exists>v. pvc_Annotations item annotation = Some v
                            \<and> ParseBool v = (True, None))) items)"
proof -
  have "pvcIncluded annotation =
          (\<lambda>item. (containsAccessMode (pvc_AccessModes item) ''ReadWriteMany''
                        \<and> pvc_Annotations item annotation = None)
                    \<or> (\<exists>v. pvc_Annotations item annotation = Some v
                            \<and> ParseBool v = (True, None)))"
    by (rule ext) (auto simp: pvcIncluded_code ParseBool_true split: option.splits)
  then show ?thesis
    using listAndFilterPVCs_ok [OF assms, of annotation] by simp
qed

theorem pvc_eligibility_table_witness:
  "fetchPVCs sampleBackupWorld = Inr sampleClaims
   \<and> fst (snd (listAndFilterPVCs sampleBackupWorld ''k8up.io/backup'')) =
       [pvcVolume (sampleClaims ! 0), pvcVolume (sampleClaims ! 2)]"
proof -
  have h: "fetchPVCs sampleBackupWorld = Inr sampleClaims"
    by (simp add: sampleBackupWorld_def)
  show ?thesis
    using h pvc_eligibility_table [OF h, of "''k8up.io/backup''"]
    by (simp add: sampleClaims_def containsAccessMode_def ParseBool_def)
qed

text \<open>
  C2, as stated, fails: a ReadWriteMany claim whose annotation has the unparsable value
  "maybe" is listed alone, and the discovery returns no volume. \<^verbatim>\<open>ParseBool\<close> gives
  false together with its error, the error is dropped, and the claim is skipped like one
  annotated "false".
\<close>

theorem unparsable_annotation_counterexample:
  "pvc_Annotations sampleUnparsableClaim ''k8up.io/backup'' = Some ''maybe''
   \<and> snd (ParseBool ''maybe'') \<noteq> None
   \<and> listAndFilterPVCs (sampleBackupWorld\<lparr>fetchPVCs := Inr [sampleUnparsableClaim]\<rparr>)
        ''k8up.io/backup''
       = ([LogInfo ''Listing all PVCs'' [(''annotation'', ''k8up.io/backup'')], FetchPVCs,
           LogInfo ''PVC skipped due to annotation''
             [(''pvc'', ''media''), (''annotation'', ''maybe'')]],
          [], None)"
  by (simp add: listAndFilterPVCs_def sampleBackupWorld_def sampleUnparsableClaim_def
        ParseBool_def containsAccessMode_def Let_def)

text \<open>
  C2, amended. A claim whose annotation is present with a value that does not parse as a
  boolean is treated as annotated false: it contributes no volume (the volumes are those
  of the other listed claims), the skip is logged with the claim's name and the
  annotation value, and the discovery still returns without error.
\<close>

theorem unparsable_annotation_excluded:
  assumes "fetchPVCs w = Inr (pre @ item # post)"
    and "pvc_Annotations item annotation = Some v"
    and "snd (ParseBool v) \<noteq> None"
  shows "fst (snd (listAndFilterPVCs w annotation))
           = map pvcVolume (filter (pvcIncluded annotation) (pre @ post))
         \<and> snd (snd (listAndFilterPVCs w annotation)) = None
         \<and> LogInfo ''PVC skipped due to annotation''
              [(''pvc'', pvc_Name item), (''annotation'', v)]
             \<in> set (fst (listAndFilterPVCs w annotation))"
proof -
  have nf: "\<not> fst (ParseBool v)"
    using assms(3) by (simp add: ParseBool_def split: if_splits)
  then have ni: "\<not> pvcIncluded annotation item"
    using assms(2) by (simp add: pvcIncluded_code)
  have lg: "pvcLog annotation item = [LogInfo ''PVC skipped due to annotation''
              [(''pvc'', pvc_Name item), (''annotation'', v)]]"
    using assms(2) nf by (simp add: pvcLog_code)
  show ?thesis
    using listAndFilterPVCs_ok [OF assms(1), of annotation] ni lg by simp
qed

theorem unparsable_annotation_excluded_witness:
  "fst (snd (listAndFilterPVCs
        (sampleBackupWorld\<lparr>fetchPVCs := Inr (sampleClaims @ sampleUnparsableClaim # [])\<rparr>)
        ''k8up.io/backup''))
     = map pvcVolume (filter (pvcIncluded ''k8up.io/backup'') (sampleClaims @ []))
   \<and> snd (ParseBool ''maybe'') \<noteq> None"
proof -
  have a: "fetchPVCs (sampleBackupWorld\<lparr>fetchPVCs := Inr (sampleClaims @ sampleUnparsableClaim # [])\<rparr>)
             = Inr (sampleClaims @ sampleUnparsableClaim # [])"
    by simp
  have b: "pvc_Annotations sampleUnparsableClaim ''k8up.io/backup'' = Some ''maybe''"
    by (simp add: sampleUnparsableClaim_def)
  have c: "snd (ParseBool ''maybe'') \<noteq> None"
    by (simp add: ParseBool_def)
  show ?thesis
    using unparsable_annotation_excluded [OF a b c] c by simp
qed

text \<open>
  C10. When the listing succeeds, the discovered volumes are the volumes of the claims the
  filter includes, one for each, in the order of the listing; the volume of a claim has
  the claim's name and a persistent-volume-claim source referring to that name, and
  nothing else. Claim names are unique within the listed namespace; then exactly one
  volume of the result has the name of an included claim. The job handed to the create
  call carries exactly the discovered volumes.
\<close>

theorem accepted_claims_volumes:
  assumes "fetchPVCs w = Inr items"
  shows "fst (snd (listAndFilterPVCs w annotation))
           = map pvcVolume (filter (pvcIncluded annotation) items)
       \<and> (\<forall>item. vol_Name (pvcVolume item) = pvc_Name item
             \<and> vol_VolumeSource (pvcVolume item)
                 = noVolumeSource\<lparr>vs_PersistentVolumeClaim := Some (pvc_Name item)\<rparr>)
       \<and> (distinct (map pvc_Name items) \<longrightarrow>
            (\<forall>item\<in>set items. pvcIncluded annotation item \<longrightarrow>
               filter (\<lambda>v. vol_Name v = pvc_Name item)
                 (fst (snd (listAndFilterPVCs w annotation))) = [pvcVolume item]))
       \<and> (\<forall>job. CreateObjectIfNotExisting job \<in> set (fst (BackupExecutor_Execute w cfg b))
             \<longrightarrow> job_Volumes job = fst (snd (listAndFilterPVCs w (BackupAnnotation cfg))))"
proof -
  have vols: "fst (snd (listAndFilterPVCs w annotation))
           = map pvcVolume (filter (pvcIncluded annotation) items)"
    using listAndFilterPVCs_ok [OF assms, of annotation] by simp
  have shape: "vol_Name (pvcVolume item) = pvc_Name item
             \<and> vol_VolumeSource (pvcVolume item)
                 = noVolumeSource\<lparr>vs_PersistentVolumeClaim := Some (pvc_Name item)\<rparr>" for item
    by (simp add: pvcVolume_def)
  have once: "filter (\<lambda>v. vol_Name v = pvc_Name item)
                 (fst (snd (listAndFilterPVCs w annotation))) = [pvcVolume item]"
    if d: "distinct (map pvc_Name items)" and i: "item \<in> set items"
      and p: "pvcIncluded annotation item" for item
  proof -
    have "filter (\<lambda>v. vol_Name v = pvc_Name item)
            (map pvcVolume (filter (pvcIncluded annotation) items))
          = map pvcVolume (filter (pvcIncluded annotation)
              (filter (\<lambda>y. pvc_Name y = pvc_Name item) items))"
      by (simp add: filter_map o_def pvcVolume_def conj_commute)
    also have "\<dots> = [pvcVolume item]"
      using filter_same_key [OF d i] p by simp
    finally show ?thesis using vols by simp
  qed
  have job: "job_Volumes job = fst (snd (listAndFilterPVCs w (BackupAnnotation cfg)))"
    if "CreateObjectIfNotExisting job \<in> set (fst (BackupExecutor_Execute w cfg b))" for job
    using Execute_created_job [OF that] by simp
  show ?thesis
    using vols shape once job by blast
qed

theorem accepted_claims_volumes_witness:
  "fst (snd (listAndFilterPVCs sampleBackupWorld ''k8up.io/backup''))
     = [\<lparr>vol_Name = ''shared'', vol_VolumeSource =
           noVolumeSource\<lparr>vs_PersistentVolumeClaim := Some ''shared''\<rparr>\<rparr>,
        \<lparr>vol_Name = ''database'', vol_VolumeSource =
           noVolumeSource\<lparr>vs_PersistentVolumeClaim := Some ''database''\<rparr>\<rparr>]
   \<and> distinct (map pvc_Name sampleClaims)
   \<and> filter (\<lambda>v. vol_Name v = ''database'')
        (fst (snd (listAndFilterPVCs sampleBackupWorld ''k8up.io/backup'')))
       = [pvcVolume (sampleClaims ! 2)]
   \<and> CreateObjectIfNotExisting sampleBackupJob
        \<in> set (fst (BackupExecutor_Execute sampleBackupWorld sampleConfiguration
                     (NewBackupExecutor (BackupObj sampleBackup))))
   \<and> job_Volumes sampleBackupJob
       = fst (snd (listAndFilterPVCs sampleBackupWorld ''k8up.io/backup''))"
proof -
  have h: "fetchPVCs sampleBackupWorld = Inr sampleClaims"
    by (simp add: sampleBackupWorld_def)
  have d: "distinct (map pvc_Name sampleClaims)"
    by (simp add: sampleClaims_def)
  have f: "filter (pvcIncluded ''k8up.io/backup'') sampleClaims = [sampleClaims ! 0, sampleClaims ! 2]"
    by (simp add: sampleClaims_def pvcIncluded_code containsAccessMode_def ParseBool_def)
  have i: "sampleClaims ! 2 \<in> set sampleClaims" "pvcIncluded ''k8up.io/backup'' (sampleClaims ! 2)"
      "pvc_Name (sampleClaims ! 2) = ''database''"
    by (simp_all add: sampleClaims_def pvcIncluded_code ParseBool_def)
  have "fst (BackupExecutor_Execute sampleBackupWorld sampleConfiguration
       (NewBackupExecutor (BackupObj sampleBackup))) \<noteq> []"
    by (simp add: BackupExecutor_Execute_def startBackup_def NewBackupExecutor_def
        sampleBackupWorld_def sampleBackup_def HasFailed_def HasSucceeded_def HasStarted_def
        IsWaitingForPreBackup_def Let_def
        split: prod.splits option.splits list.splits)
  then have m: "CreateObjectIfNotExisting sampleBackupJob
        \<in> set (fst (BackupExecutor_Execute sampleBackupWorld sampleConfiguration
                     (NewBackupExecutor (BackupObj sampleBackup))))"
    using sample_run last_in_set by metis
  have c: "BackupAnnotation sampleConfiguration = ''k8up.io/backup''"
    by (simp add: sampleConfiguration_def)
  note t = accepted_claims_volumes [OF h, of "''k8up.io/backup''" sampleConfiguration
        "NewBackupExecutor (BackupObj sampleBackup)"]
  have v: "fst (snd (listAndFilterPVCs sampleBackupWorld ''k8up.io/backup''))
     = [\<lparr>vol_Name = ''shared'', vol_VolumeSource =
           noVolumeSource\<lparr>vs_PersistentVolumeClaim := Some ''shared''\<rparr>\<rparr>,
        \<lparr>vol_Name = ''database'', vol_VolumeSource =
           noVolumeSource\<lparr>vs_PersistentVolumeClaim := Some ''database''\<rparr>\<rparr>]"
    using t f by (simp add: sampleClaims_def pvcVolume_def)
  have once: "filter (\<lambda>v. vol_Name v = ''database'')
        (fst (snd (listAndFilterPVCs sampleBackupWorld ''k8up.io/backup'')))
       = [pvcVolume (sampleClaims ! 2)]"
    using t d i by metis
  have j: "job_Volumes sampleBackupJob
       = fst (snd (listAndFilterPVCs sampleBackupWorld ''k8up.io/backup''))"
    using t m c by metis
  show ?thesis
    using v d once m j by (intro conjI)
qed

section \<open>The scratch volume\<close>

text \<open>
  C3, as stated, fails for backups: with an empty listing of claims the backup executor
  hands over a job whose volume list is empty, so it has no scratch volume.
\<close>

theorem scratch_volume_counterexample:
  "fst (BackupExecutor_Execute (sampleBackupWorld\<lparr>fetchPVCs := Inr []\<rparr>) sampleConfiguration
          (NewBackupExecutor (BackupObj sampleBackup)))
     = [CreateServiceAccountAndBinding, StartPreBackup,
        LogInfo ''Listing all PVCs'' [(''annotation'', ''k8up.io/backup'')], FetchPVCs,
        CreateObjectIfNotExisting (sampleTemplate\<lparr>job_ServiceAccountName := ''pod-executor''\<rparr>)]
   \<and> job_Volumes (sampleTemplate\<lparr>job_ServiceAccountName := ''pod-executor''\<rparr>) = []"
  by (simp add: BackupExecutor_Execute_def startBackup_def NewBackupExecutor_def
        listAndFilterPVCs_def sampleConfiguration_def sampleTemplate_def sampleContainer_def
        sampleBackupWorld_def sampleBackup_def HasFailed_def HasSucceeded_def HasStarted_def
        IsWaitingForPreBackup_def)

text \<open>
  C3, amended. For every check, the assembled volume list contains exactly one scratch
  volume: the only volume with an empty-directory source is the one with the fixed name,
  whatever extra volumes the check declares (none, or one of the fixed name included), and
  this list is the volume list of the mutated job. The volume list of a backup job
  consists of the discovered claim volumes only; none of them has an empty-directory
  source.
\<close>

theorem scratch_volume_check_only:
  "filter (\<lambda>v. vs_EmptyDir (vol_VolumeSource v) \<noteq> None) (attachMoreVolumes c) = [ku8pVolume]
   \<and> vol_Name ku8pVolume = dataDirName
   \<and> length (filter (\<lambda>v. vol_Name v = dataDirName \<and> vs_EmptyDir (vol_VolumeSource v) \<noteq> None)
        (attachMoreVolumes c)) = 1
   \<and> (\<forall>job job'. Execute_mutate cw cfg c job = Done (job', None)
         \<longrightarrow> job_Volumes job' = attachMoreVolumes c)
   \<and> (\<forall>job. CreateObjectIfNotExisting job \<in> set (fst (BackupExecutor_Execute bw cfg b))
         \<longrightarrow> (\<forall>v\<in>set (job_Volumes job). vs_EmptyDir (vol_VolumeSource v) = None))"
proof -
  have one: "filter (\<lambda>v. vs_EmptyDir (vol_VolumeSource v) \<noteq> None) (attachMoreVolumes c)
               = [ku8pVolume]"
    by (rule attachMoreVolumes_emptyDir)
  have "filter (\<lambda>v. vol_Name v = dataDirName \<and> vs_EmptyDir (vol_VolumeSource v) \<noteq> None)
          (attachMoreVolumes c)
        = filter (\<lambda>v. vol_Name v = dataDirName)
            (filter (\<lambda>v. vs_EmptyDir (vol_VolumeSource v) \<noteq> None) (attachMoreVolumes c))"
    by (simp add: conj_commute)
  then have two: "length (filter (\<lambda>v. vol_Name v = dataDirName
                    \<and> vs_EmptyDir (vol_VolumeSource v) \<noteq> None) (attachMoreVolumes c)) = 1"
    by (simp only: one) (simp add: ku8pVolume_def)
  have three: "job_Volumes job' = attachMoreVolumes c"
    if "Execute_mutate cw cfg c job = Done (job', None)" for job job'
    using Execute_mutate_result [OF that] by blast
  have four: "\<forall>v\<in>set (job_Volumes job). vs_EmptyDir (vol_VolumeSource v) = None"
    if "CreateObjectIfNotExisting job \<in> set (fst (BackupExecutor_Execute bw cfg b))" for job
  proof (cases "fetchPVCs bw")
    case (Inl err)
    then show ?thesis
      using Execute_created_job [OF that] listAndFilterPVCs_err [OF Inl, of "BackupAnnotation cfg"]
      by simp
  next
    case (Inr items)
    then show ?thesis
      using Execute_created_job [OF that] listAndFilterPVCs_ok [OF Inr, of "BackupAnnotation cfg"]
      by (auto simp: pvcVolume_no_emptyDir)
  qed
  show ?thesis
    using one two three four by (simp add: ku8pVolume_def)
qed

theorem scratch_volume_check_only_witness:
  "attachMoreVolumes sampleCheckExecutor =
     [ku8pVolume,
      \<lparr>vol_Name = ''ca'', vol_VolumeSource = noVolumeSource\<lparr>vs_Secret := Some ''ca-secret''\<rparr>\<rparr>]
   \<and> filter (\<lambda>v. vs_EmptyDir (vol_VolumeSource v) \<noteq> None) (attachMoreVolumes sampleCheckExecutor)
       = [ku8pVolume]
   \<and> filter (\<lambda>v. vs_EmptyDir (vol_VolumeSource v) \<noteq> None)
        (job_Volumes (sampleTemplate\<lparr>job_ServiceAccountName := ''pod-executor''\<rparr>)) = []"
proof -
  have m: "CreateObjectIfNotExisting (sampleTemplate\<lparr>job_ServiceAccountName := ''pod-executor''\<rparr>)
        \<in> set (fst (BackupExecutor_Execute (sampleBackupWorld\<lparr>fetchPVCs := Inr []\<rparr>)
              sampleConfiguration (NewBackupExecutor (BackupObj sampleBackup))))"
    by (simp add: BackupExecutor_Execute_def startBackup_def NewBackupExecutor_def
        listAndFilterPVCs_def sampleConfiguration_def sampleTemplate_def sampleContainer_def
        sampleBackupWorld_def sampleBackup_def HasFailed_def HasSucceeded_def HasStarted_def
        IsWaitingForPreBackup_def)
  have a: "attachMoreVolumes sampleCheckExecutor =
     [ku8pVolume,
      \<lparr>vol_Name = ''ca'', vol_VolumeSource = noVolumeSource\<lparr>vs_Secret := Some ''ca-secret''\<rparr>\<rparr>]"
    by (simp add: attachMoreVolumes_def sampleCheckExecutor_def sampleCheck_def ZeroLen_def)
  note t = scratch_volume_check_only [of sampleCheckExecutor sampleCheckWorld sampleConfiguration
        "sampleBackupWorld\<lparr>fetchPVCs := Inr []\<rparr>" "NewBackupExecutor (BackupObj sampleBackup)"]
  have b: "filter (\<lambda>v. vs_EmptyDir (vol_VolumeSource v) \<noteq> None)
             (attachMoreVolumes sampleCheckExecutor) = [ku8pVolume]"
    using t by blast
  have "\<forall>v\<in>set (job_Volumes (sampleTemplate\<lparr>job_ServiceAccountName := ''pod-executor''\<rparr>)).
          vs_EmptyDir (vol_VolumeSource v) = None"
    using t m by blast
  then have c: "filter (\<lambda>v. vs_EmptyDir (vol_VolumeSource v) \<noteq> None)
        (job_Volumes (sampleTemplate\<lparr>job_ServiceAccountName := ''pod-executor''\<rparr>)) = []"
    by (simp add: filter_empty_conv)
  show ?thesis
    using a b c by (intro conjI)
qed

section \<open>The state machine of the backup executor\<close>

text \<open>
  C4. For a backup whose status is Succeeded or Failed, \<^verbatim>\<open>Execute\<close> stops the pre-backup
  deployments, then runs the retention cleanup for the job's namespaced name, does
  nothing else (no workload is created), and returns nil.
\<close>

theorem terminal_backup_cleans_up:
  assumes "bx_Obj b = BackupObj bk"
    and "st_Phase (bk_Status bk) = Succeeded \<or> st_Phase (bk_Status bk) = Failed"
  shows "BackupExecutor_Execute w cfg b =
           ([StopPreBackupDeployments,
             CleanupOldResources ''BackupList'' (GetJobNamespacedName w) (Some bk)],
            b\<lparr>bx_backup := Some bk\<rparr>, Done None)"
  using assms
  by (auto simp: BackupExecutor_Execute_def Let_def HasFailed_def HasSucceeded_def
        cleanupOldBackups_def)

theorem terminal_backup_cleans_up_witness:
  "BackupExecutor_Execute sampleBackupWorld sampleConfiguration
     (NewBackupExecutor (BackupObj (sampleBackup\<lparr>bk_Status :=
         \<lparr>st_Phase = Failed, st_WaitingForPreBackup = False\<rparr>\<rparr>)))
   = ([StopPreBackupDeployments,
       CleanupOldResources ''BackupList'' (''prod'', ''backup-nightly'')
         (Some (sampleBackup\<lparr>bk_Status :=
            \<lparr>st_Phase = Failed, st_WaitingForPreBackup = False\<rparr>\<rparr>))],
      \<lparr>bx_Obj = BackupObj (sampleBackup\<lparr>bk_Status :=
            \<lparr>st_Phase = Failed, st_WaitingForPreBackup = False\<rparr>\<rparr>),
       bx_backup = Some (sampleBackup\<lparr>bk_Status :=
            \<lparr>st_Phase = Failed, st_WaitingForPreBackup = False\<rparr>\<rparr>)\<rparr>,
      Done None)"
  using terminal_backup_cleans_up
    [of "NewBackupExecutor (BackupObj (sampleBackup\<lparr>bk_Status :=
           \<lparr>st_Phase = Failed, st_WaitingForPreBackup = False\<rparr>\<rparr>))"
        "sampleBackup\<lparr>bk_Status := \<lparr>st_Phase = Failed, st_WaitingForPreBackup = False\<rparr>\<rparr>"
        sampleBackupWorld sampleConfiguration]
  by (simp add: NewBackupExecutor_def sampleBackupWorld_def)

text \<open>
  C5. For a backup whose status is Started, \<^verbatim>\<open>Execute\<close> reaches no collaborator and
  returns nil; the only thing it leaves behind is the executor's own reference
  \<^verbatim>\<open>b.backup\<close> to the operation. A second invocation, in whatever state the
  collaborators are by then, again reaches no collaborator, returns nil, and leaves the
  executor as the first invocation left it.
\<close>

theorem started_backup_noop:
  assumes "bx_Obj b = BackupObj bk"
    and "st_Phase (bk_Status bk) = Started"
  shows "BackupExecutor_Execute w cfg b = ([], b\<lparr>bx_backup := Some bk\<rparr>, Done None)
       \<and> BackupExecutor_Execute w' cfg' (b\<lparr>bx_backup := Some bk\<rparr>)
           = ([], b\<lparr>bx_backup := Some bk\<rparr>, Done None)"
  using assms
  by (simp add: BackupExecutor_Execute_def Let_def HasFailed_def HasSucceeded_def
        HasStarted_def)

theorem started_backup_noop_witness:
  "BackupExecutor_Execute sampleBackupWorld sampleConfiguration
     (NewBackupExecutor (BackupObj (sampleBackup\<lparr>bk_Status :=
         \<lparr>st_Phase = Started, st_WaitingForPreBackup = False\<rparr>\<rparr>)))
   = ([],
      \<lparr>bx_Obj = BackupObj (sampleBackup\<lparr>bk_Status :=
            \<lparr>st_Phase = Started, st_WaitingForPreBackup = False\<rparr>\<rparr>),
       bx_backup = Some (sampleBackup\<lparr>bk_Status :=
            \<lparr>st_Phase = Started, st_WaitingForPreBackup = False\<rparr>\<rparr>)\<rparr>,
      Done None)"
  using started_backup_noop
    [of "NewBackupExecutor (BackupObj (sampleBackup\<lparr>bk_Status :=
           \<lparr>st_Phase = Started, st_WaitingForPreBackup = False\<rparr>\<rparr>))"
        "sampleBackup\<lparr>bk_Status := \<lparr>st_Phase = Started, st_WaitingForPreBackup = False\<rparr>\<rparr>"
        sampleBackupWorld sampleConfiguration]
  by (simp add: NewBackupExecutor_def)

text \<open>
  C6, as stated, fails: for a backup that is not started and flagged as waiting for the
  pre-backup hooks, before and after the hook coordination has run, \<^verbatim>\<open>Execute\<close>
  returns the error of the hook coordination when that call fails, not success.
\<close>

theorem deferred_backup_counterexample:
  "st_Phase (bk_Status (sampleBackup\<lparr>bk_Status :=
       \<lparr>st_Phase = NotStarted, st_WaitingForPreBackup = True\<rparr>\<rparr>)) = NotStarted
   \<and> st_WaitingForPreBackup (bk_Status (sampleBackup\<lparr>bk_Status :=
       \<lparr>st_Phase = NotStarted, st_WaitingForPreBackup = True\<rparr>\<rparr>))
   \<and> st_WaitingForPreBackup (bk_Status (StartPreBackup_update
        (sampleBackupWorld\<lparr>StartPreBackup_result := (False, Some (Error ''deployment not found''))\<rparr>)
        (sampleBackup\<lparr>bk_Status :=
           \<lparr>st_Phase = NotStarted, st_WaitingForPreBackup = True\<rparr>\<rparr>)))
   \<and> snd (snd (BackupExecutor_Execute
        (sampleBackupWorld\<lparr>StartPreBackup_result := (False, Some (Error ''deployment not found''))\<rparr>)
        sampleConfiguration
        (NewBackupExecutor (BackupObj (sampleBackup\<lparr>bk_Status :=
           \<lparr>st_Phase = NotStarted, st_WaitingForPreBackup = True\<rparr>\<rparr>)))))
      = Done (Some (Error ''deployment not found''))"
  by (simp add: BackupExecutor_Execute_def startBackup_def NewBackupExecutor_def
        sampleBackupWorld_def sampleBackup_def HasFailed_def HasSucceeded_def HasStarted_def)

text \<open>
  C6, amended. For a backup with status NotStarted: if the hook coordination reports the
  hooks not ready, or the backup is flagged as waiting for them when the hook
  coordination has returned (the flag is read after the call, which may have set or
  cleared it), \<^verbatim>\<open>Execute\<close> never creates a workload, and it returns the first error
  among the service-account ensure, the template generation and the hook coordination;
  when all three return without error it returns nil. The executor is left holding the
  backup as the hook coordination left it, when that call was reached.
\<close>

theorem deferred_backup_no_workload:
  assumes "bx_Obj b = BackupObj bk"
    and "st_Phase (bk_Status bk) = NotStarted"
    and "StartPreBackup_result w = (ready, hookErr)"
    and "\<not> ready \<or> st_WaitingForPreBackup (bk_Status (StartPreBackup_update w bk))"
  shows "(\<forall>job. CreateObjectIfNotExisting job \<notin> set (fst (BackupExecutor_Execute w cfg b)))
       \<and> snd (snd (BackupExecutor_Execute w cfg b)) =
           Done (case createServiceAccountAndBinding w of
                   Some err \<Rightarrow> Some err
                 | None \<Rightarrow> (case GenerateGenericJob w of
                               Inl err \<Rightarrow> Some err
                             | Inr genericJob \<Rightarrow> hookErr))
       \<and> (createServiceAccountAndBinding w = None \<and> (\<exists>job. GenerateGenericJob w = Inr job)
            \<longrightarrow> BackupExecutor_Execute w cfg b =
                  ([CreateServiceAccountAndBinding, StartPreBackup],
                   b\<lparr>bx_Obj := BackupObj (StartPreBackup_update w bk),
                     bx_backup := Some (StartPreBackup_update w bk)\<rparr>,
                   Done hookErr))"
proof -
  have sb: "startBackup w cfg (b\<lparr>bx_backup := Some bk\<rparr>) genericJob
              = ([StartPreBackup],
                 b\<lparr>bx_Obj := BackupObj (StartPreBackup_update w bk),
                   bx_backup := Some (StartPreBackup_update w bk)\<rparr>,
                 Done hookErr)" for genericJob
  proof -
    have "\<not> ready \<or> (\<exists>bk'. bx_backup (b\<lparr>bx_backup := Some bk\<rparr>) = Some bk'
            \<and> st_WaitingForPreBackup (bk_Status (StartPreBackup_update w bk')))"
      using assms(4) by simp
    from startBackup_deferred [OF assms(3) this, of cfg genericJob]
    show ?thesis using assms(1) by simp
  qed
  show ?thesis
    using assms(1,2) sb
    by (auto simp: BackupExecutor_Execute_def Let_def HasFailed_def HasSucceeded_def
          HasStarted_def split: option.splits sum.splits)
qed

text \<open>
  Two runs of the amended C6: hooks that are not ready and mark the backup as waiting,
  and hooks that answer ready while the backup is marked as waiting.
\<close>

theorem deferred_backup_no_workload_witness:
  "BackupExecutor_Execute
     (sampleBackupWorld\<lparr>StartPreBackup_result := (False, None),
        StartPreBackup_update := (\<lambda>backup. backup\<lparr>bk_Status :=
           \<lparr>st_Phase = NotStarted, st_WaitingForPreBackup = True\<rparr>\<rparr>)\<rparr>)
     sampleConfiguration (NewBackupExecutor (BackupObj sampleBackup))
   = ([CreateServiceAccountAndBinding, StartPreBackup],
      \<lparr>bx_Obj = BackupObj (sampleBackup\<lparr>bk_Status :=
           \<lparr>st_Phase = NotStarted, st_WaitingForPreBackup = True\<rparr>\<rparr>),
       bx_backup = Some (sampleBackup\<lparr>bk_Status :=
           \<lparr>st_Phase = NotStarted, st_WaitingForPreBackup = True\<rparr>\<rparr>)\<rparr>,
      Done None)
   \<and> BackupExecutor_Execute
     (sampleBackupWorld\<lparr>StartPreBackup_result := (True, None),
        StartPreBackup_update := (\<lambda>backup. backup\<lparr>bk_Status :=
           \<lparr>st_Phase = NotStarted, st_WaitingForPreBackup = True\<rparr>\<rparr>)\<rparr>)
     sampleConfiguration (NewBackupExecutor (BackupObj sampleBackup))
   = ([CreateServiceAccountAndBinding, StartPreBackup],
      \<lparr>bx_Obj = BackupObj (sampleBackup\<lparr>bk_Status :=
           \<lparr>st_Phase = NotStarted, st_WaitingForPreBackup = True\<rparr>\<rparr>),
       bx_backup = Some (sampleBackup\<lparr>bk_Status :=
           \<lparr>st_Phase = NotStarted, st_WaitingForPreBackup = True\<rparr>\<rparr>)\<rparr>,
      Done None)"
proof -
  let ?mark = "\<lambda>backup. backup\<lparr>bk_Status :=
           \<lparr>st_Phase = NotStarted, st_WaitingForPreBackup = True\<rparr>\<rparr>"
  let ?w1 = "sampleBackupWorld\<lparr>StartPreBackup_result := (False, None),
        StartPreBackup_update := ?mark\<rparr>"
  let ?w2 = "sampleBackupWorld\<lparr>StartPreBackup_result := (True, None),
        StartPreBackup_update := ?mark\<rparr>"
  let ?b = "NewBackupExecutor (BackupObj sampleBackup)"
  have o: "bx_Obj ?b = BackupObj sampleBackup"
    by (simp add: NewBackupExecutor_def)
  have p: "st_Phase (bk_Status sampleBackup) = NotStarted"
    by (simp add: sampleBackup_def)
  have r1: "StartPreBackup_result ?w1 = (False, None)" and r2: "StartPreBackup_result ?w2 = (True, None)"
    by simp_all
  have f1: "\<not> False \<or> st_WaitingForPreBackup (bk_Status (StartPreBackup_update ?w1 sampleBackup))"
    by simp
  have f2: "\<not> True \<or> st_WaitingForPreBackup (bk_Status (StartPreBackup_update ?w2 sampleBackup))"
    by simp
  have g1: "createServiceAccountAndBinding ?w1 = None \<and> (\<exists>job. GenerateGenericJob ?w1 = Inr job)"
    and g2: "createServiceAccountAndBinding ?w2 = None \<and> (\<exists>job. GenerateGenericJob ?w2 = Inr job)"
    by (simp_all add: sampleBackupWorld_def)
  have e1: "BackupExecutor_Execute ?w1 sampleConfiguration ?b
      = ([CreateServiceAccountAndBinding, StartPreBackup],
         ?b\<lparr>bx_Obj := BackupObj (StartPreBackup_update ?w1 sampleBackup),
            bx_backup := Some (StartPreBackup_update ?w1 sampleBackup)\<rparr>, Done None)"
    using deferred_backup_no_workload [OF o p r1 f1, of sampleConfiguration] g1 by blast
  have e2: "BackupExecutor_Execute ?w2 sampleConfiguration ?b
      = ([CreateServiceAccountAndBinding, StartPreBackup],
         ?b\<lparr>bx_Obj := BackupObj (StartPreBackup_update ?w2 sampleBackup),
            bx_backup := Some (StartPreBackup_update ?w2 sampleBackup)\<rparr>, Done None)"
    using deferred_backup_no_workload [OF o p r2 f2, of sampleConfiguration] g2 by blast
  show ?thesis
    using e1 e2 by (simp add: NewBackupExecutor_def)
qed

section \<open>Objects of the wrong kind\<close>

text \<open>
  C9, as stated, fails for the check executor: handed a backup, its constructor panics on
  the unchecked type assertion, so there is no \<^verbatim>\<open>Execute\<close> that could fail with an error.
\<close>

theorem type_mismatch_counterexample:
  "NewCheckExecutor (BackupObj sampleBackup) = Panic"
  by (simp add: NewCheckExecutor_def)

text \<open>
  C9, amended. For every object handed to the backup executor that is not a backup,
  \<^verbatim>\<open>Execute\<close> returns the error "object is not a backup: ..." and reaches no
  collaborator: no hook teardown, no cleanup, no workload creation; the executor is
  unchanged. The check executor settles the kind at construction: every executor that
  \<^verbatim>\<open>NewCheckExecutor\<close> returns holds the check it was handed.
\<close>

theorem type_mismatch_backup:
  assumes "\<forall>bk. bx_Obj b \<noteq> BackupObj bk"
  shows "BackupExecutor_Execute w cfg b =
           ([], b, Done (Some (Error (''object is not a backup: '' @ fmt_v w (bx_Obj b)))))
       \<and> (\<forall>obj c. NewCheckExecutor obj = Done c \<longrightarrow> obj = CheckObj (cx_check c) \<and> cx_Obj c = obj)"
  using assms
  by (auto simp: BackupExecutor_Execute_def NewCheckExecutor_def split: JobObject.splits)

theorem type_mismatch_backup_witness:
  "BackupExecutor_Execute sampleBackupWorld sampleConfiguration
      (NewBackupExecutor (CheckObj sampleCheck))
    = ([], NewBackupExecutor (CheckObj sampleCheck),
       Done (Some (Error ''object is not a backup: &{...}'')))
   \<and> NewCheckExecutor (CheckObj sampleCheck) = Done sampleCheckExecutor"
proof -
  have h: "\<forall>bk. bx_Obj (NewBackupExecutor (CheckObj sampleCheck)) \<noteq> BackupObj bk"
    by (simp add: NewBackupExecutor_def)
  show ?thesis
    using type_mismatch_backup [OF h, of sampleBackupWorld sampleConfiguration]
    by (simp add: sampleBackupWorld_def NewCheckExecutor_def sampleCheckExecutor_def)
qed

section \<open>Arguments and upsert of the check executor\<close>

text \<open>
  C7. For every check, the argument list is exactly \<^verbatim>\<open>-varDir <dir> -check\<close>, followed by
  \<^verbatim>\<open>-caCert <path>\<close> iff the backend's CA certificate path is non-empty, followed by
  \<^verbatim>\<open>-clientCert <path> -clientKey <path>\<close> iff the client certificate and the client key
  paths are both non-empty. A check without backend or without backend options has no
  such path, and gets the three fixed arguments only. No error is returned, and the list
  is what the mutate function sets as the arguments of the job's first container.
\<close>

theorem check_args_exact:
  "setupArgs cfg c =
     ([''-varDir'', PodVarDir cfg, ''-check''] @
      (case chk_Backend (cx_check c) of
         None \<Rightarrow> []
       | Some be \<Rightarrow>
          (case be_Options be of
             None \<Rightarrow> []
           | Some opts \<Rightarrow>
              (if opt_CACert opts \<noteq> [] then [''-caCert'', opt_CACert opts] else []) @
              (if opt_ClientCert opts \<noteq> [] \<and> opt_ClientKey opts \<noteq> []
               then [''-clientCert'', opt_ClientCert opts, ''-clientKey'', opt_ClientKey opts]
               else []))),
      None)
   \<and> (\<forall>job job'. Execute_mutate w cfg c job = Done (job', None) \<longrightarrow>
         (\<exists>c0 cs. job_Containers job' = c0 # cs \<and> ct_Args c0 = fst (setupArgs cfg c)))"
proof -
  have "\<exists>c0 cs. job_Containers job' = c0 # cs \<and> ct_Args c0 = fst (setupArgs cfg c)"
    if "Execute_mutate w cfg c job = Done (job', None)" for job job'
    using Execute_mutate_result [OF that] by blast
  then show ?thesis
    by (simp add: setupArgs_def appendOptionsArgs_def Let_def split: option.splits)
qed

theorem check_args_exact_witness:
  "setupArgs sampleConfiguration sampleCheckExecutor =
     ([''-varDir'', ''/k8up'', ''-check'', ''-caCert'', ''/mnt/ca/ca.crt''], None)
   \<and> (\<exists>job' c0 cs. Execute_mutate sampleCheckWorld sampleConfiguration sampleCheckExecutor
          (emptyJob\<lparr>job_Name := jobName sampleCheckExecutor,
                    job_Namespace := chk_Namespace (cx_check sampleCheckExecutor)\<rparr>)
          = Done (job', None)
        \<and> job_Containers job' = c0 # cs
        \<and> ct_Args c0 = [''-varDir'', ''/k8up'', ''-check'', ''-caCert'', ''/mnt/ca/ca.crt''])"
proof -
  obtain job' where m: "Execute_mutate sampleCheckWorld sampleConfiguration sampleCheckExecutor
          (emptyJob\<lparr>job_Name := jobName sampleCheckExecutor,
                    job_Namespace := chk_Namespace (cx_check sampleCheckExecutor)\<rparr>)
          = Done (job', None)"
    using sample_mutate by blast
  have a: "setupArgs sampleConfiguration sampleCheckExecutor =
     ([''-varDir'', ''/k8up'', ''-check'', ''-caCert'', ''/mnt/ca/ca.crt''], None)"
    using check_args_exact [of sampleConfiguration sampleCheckExecutor sampleCheckWorld]
    by (simp add: sampleConfiguration_def sampleCheckExecutor_def sampleCheck_def)
  obtain c0 cs where "job_Containers job' = c0 # cs"
      and "ct_Args c0 = fst (setupArgs sampleConfiguration sampleCheckExecutor)"
    using check_args_exact [of sampleConfiguration sampleCheckExecutor sampleCheckWorld] m
    by blast
  then show ?thesis
    using a m by auto
qed

text \<open>
  C8. For every check: when the upsert comes back with an error, \<^verbatim>\<open>Execute\<close> sets the
  Ready condition to false with reason CreationFailed and the message "could not create
  job: " followed by the error's text, and returns that error; when the upsert comes back
  without error, \<^verbatim>\<open>Execute\<close> reports Started with a message naming the job by
  namespace and name, and returns nil.
\<close>

theorem check_upsert_outcome:
  "(controllerruntime_CreateOrUpdate w
       (emptyJob\<lparr>job_Name := jobName c, job_Namespace := chk_Namespace (cx_check c)\<rparr>)
       (Execute_mutate w cfg c) = Done (job', Some err)
     \<longrightarrow> CheckExecutor_Execute w cfg c =
          ([CreateOrUpdate (emptyJob\<lparr>job_Name := jobName c,
                                      job_Namespace := chk_Namespace (cx_check c)\<rparr>),
            SetConditionFalseWithMessage ConditionReady ReasonCreationFailed
              (''could not create job: '' @ error_text err)],
           Done (Some err)))
   \<and> (controllerruntime_CreateOrUpdate w
       (emptyJob\<lparr>job_Name := jobName c, job_Namespace := chk_Namespace (cx_check c)\<rparr>)
       (Execute_mutate w cfg c) = Done (job', None)
     \<longrightarrow> CheckExecutor_Execute w cfg c =
          ([CreateOrUpdate (emptyJob\<lparr>job_Name := jobName c,
                                      job_Namespace := chk_Namespace (cx_check c)\<rparr>),
            SetStarted (''the job '' @ [CHR 0x27] @ job_Namespace job' @ ''/''
                        @ job_Name job' @ [CHR 0x27] @ '' was created'')],
           Done None))"
  by (simp add: CheckExecutor_Execute_def Let_def)

theorem check_upsert_outcome_witness:
  "CheckExecutor_Execute
      (sampleCheckWorld\<lparr>controllerruntime_CreateOrUpdate :=
          (\<lambda>job mutate. Done (job, Some (Error ''jobs.batch is forbidden'')))\<rparr>)
      sampleConfiguration sampleCheckExecutor
    = ([CreateOrUpdate (emptyJob\<lparr>job_Name := ''check-weekly'', job_Namespace := ''prod''\<rparr>),
        SetConditionFalseWithMessage ConditionReady ReasonCreationFailed
          ''could not create job: jobs.batch is forbidden''],
       Done (Some (Error ''jobs.batch is forbidden'')))
   \<and> CheckExecutor_Execute sampleCheckWorld sampleConfiguration sampleCheckExecutor
    = ([CreateOrUpdate (emptyJob\<lparr>job_Name := ''check-weekly'', job_Namespace := ''prod''\<rparr>),
        SetStarted (''the job '' @ [CHR 0x27] @ ''prod/check-weekly'' @ [CHR 0x27]
                    @ '' was created'')],
       Done None)"
proof -
  let ?job = "emptyJob\<lparr>job_Name := jobName sampleCheckExecutor,
                 job_Namespace := chk_Namespace (cx_check sampleCheckExecutor)\<rparr>"
  have n: "?job = emptyJob\<lparr>job_Name := ''check-weekly'', job_Namespace := ''prod''\<rparr>"
    by (simp add: jobName_def CheckType_String_def sampleCheckExecutor_def sampleCheck_def)
  obtain job' where m: "Execute_mutate sampleCheckWorld sampleConfiguration sampleCheckExecutor ?job
       = Done (job', None)" and nm: "job_Name job' = ''check-weekly''"
      and ns: "job_Namespace job' = ''prod''"
    using sample_mutate by blast
  have up: "controllerruntime_CreateOrUpdate sampleCheckWorld ?job
              (Execute_mutate sampleCheckWorld sampleConfiguration sampleCheckExecutor)
            = Done (job', None)"
    using m by (simp add: sampleCheckWorld_def)
  have ok: "CheckExecutor_Execute sampleCheckWorld sampleConfiguration sampleCheckExecutor
    = ([CreateOrUpdate ?job,
        SetStarted (''the job '' @ [CHR 0x27] @ ''prod/check-weekly'' @ [CHR 0x27]
                    @ '' was created'')],
       Done None)"
    using check_upsert_outcome [of sampleCheckWorld sampleCheckExecutor sampleConfiguration
        job' "Error ''x''"] up nm ns
    by simp
  have bad: "CheckExecutor_Execute
      (sampleCheckWorld\<lparr>controllerruntime_CreateOrUpdate :=
          (\<lambda>job mutate. Done (job, Some (Error ''jobs.batch is forbidden'')))\<rparr>)
      sampleConfiguration sampleCheckExecutor
    = ([CreateOrUpdate ?job,
        SetConditionFalseWithMessage ConditionReady ReasonCreationFailed
          ''could not create job: jobs.batch is forbidden''],
       Done (Some (Error ''jobs.batch is forbidden'')))"
    using check_upsert_outcome [of "sampleCheckWorld\<lparr>controllerruntime_CreateOrUpdate :=
          (\<lambda>job mutate. Done (job, Some (Error ''jobs.batch is forbidden'')))\<rparr>"
        sampleCheckExecutor sampleConfiguration ?job "Error ''jobs.batch is forbidden''"]
    by simp
  show ?thesis
    using ok bad by (simp only: n) 
qed

end
